theory Spec2Isabelle
  imports Main
begin

section \<open>The HTTP and websocket handlers of accept-nano (http.go)\<close>

text \<open>
  The handlers of \<^verbatim>\<open>http.go\<close> are sequences of calls to collaborators (the price
  service, the index allocator, the node, the token codec, the payment store, the check
  scheduler, the event bus, the connection), with an early return after each failure.
  The embedding keeps that shape: a handler is a function on a handler state, which is
  the outside world together with the list of effects performed so far, in order. The
  collaborators whose code is not in \<^verbatim>\<open>http.go\<close> are the fields of an environment record;
  each of them may read and change the world, and what it returned is written into the
  effect it leaves in the list.
\<close>

subsection \<open>Data\<close>

text \<open>
  A Go \<^verbatim>\<open>error\<close> value. The handlers compare against one sentinel,
  \<^verbatim>\<open>errPaymentNotFound\<close>; every other error is \<open>Err\<close> with its message.
\<close>

datatype error = errPaymentNotFound | Err string

text \<open>
  The part of \<^verbatim>\<open>*http.Request\<close> the handlers read: the method, and the form values
  (\<^verbatim>\<open>r.FormValue\<close> gives the empty string for a key that is absent).
\<close>

record Request =
  Method :: string
  Form :: "string \<Rightarrow> string"

text \<open>The key pair returned by \<^verbatim>\<open>node.DeterministicKey\<close>: the handlers read two fields.\<close>

record Key =
  Public :: string
  Account :: string

text \<open>The claims recovered by \<^verbatim>\<open>ParseToken\<close>: the handlers read the account.\<close>

record TokenClaims =
  claims_Account :: string

text \<open>
  The fields of \<^verbatim>\<open>Payment\<close> that \<^verbatim>\<open>handlePay\<close> sets. \<open>'d\<close> is
  \<^verbatim>\<open>decimal.Decimal\<close>, \<open>'a\<close> the type of the raw amount that \<^verbatim>\<open>NanoToRaw\<close>
  returns; \<^verbatim>\<open>CreatedAt\<close> is a UTC instant, a number here. \<open>PaymentAccount\<close> is the
  field \<^verbatim>\<open>Account\<close> of the Payment (the key pair has a field of that name too).
\<close>

record ('d, 'a) Payment =
  PublicKey :: string
  PaymentAccount :: string
  Index :: nat
  Amount :: 'a
  AmountInCurrency :: 'd
  Currency :: string
  State :: string
  CreatedAt :: nat

text \<open>
  Modelled from the spec: the \<^verbatim>\<open>Response\<close> type is not in \<^verbatim>\<open>http.go\<close>. By the
  spec's section 4.6 a created or verified payment is returned as the Payment together
  with its token; so the response holds the payment and the token.
\<close>

record ('d, 'a) Response =
  ResponsePayment :: "('d, 'a) Payment"
  ResponseToken :: string

text \<open>
  Modelled from the spec: \<^verbatim>\<open>NewResponse\<close> is not in \<^verbatim>\<open>http.go\<close>. By the spec's
  section 4.6 the response is the Payment together with its token, and by section 3 the
  \<^verbatim>\<open>State\<close> of the Payment is echoed back unmodified: the payment goes into the
  response as it is.
\<close>

definition NewResponse :: "('d, 'a) Payment \<Rightarrow> string \<Rightarrow> ('d, 'a) Response" where
  "NewResponse p token = \<lparr>ResponsePayment = p, ResponseToken = token\<rparr>"

text \<open>
  An \<^verbatim>\<open>Event\<close> delivered by the event bus is an interface value: either a
  \<^verbatim>\<open>PaymentVerified\<close>, which embeds a Payment, or a value of any other dynamic type
  (\<open>'x\<close>; the nil interface is one of them).
\<close>

datatype ('d, 'a, 'x) Event =
  is_PaymentVerified: PaymentVerified "('d, 'a) Payment"
| OtherEvent 'x

text \<open>Arguments of a log call.\<close>

datatype logarg = LogErr error | LogStr string

text \<open>
  The effects of a handler, in the order performed. A call to a collaborator carries its
  arguments and what it returned.
\<close>

datatype ('d, 'a) effect =
  FormValue string
| LogDebug "logarg list"
| LogError "logarg list"
| HttpError string nat
| ResponseWrite string "error option"
| is_GetNanoPrice: GetNanoPrice string "error + 'd"
| is_CallNewIndex: CallNewIndex "error + nat"
| is_DeterministicKey: DeterministicKey string nat "error + Key"
| CallNewToken nat string "error + string"
| TimeNow nat
| is_Save: Save "('d, 'a) Payment" "error option"
| is_StartChecking: StartChecking "('d, 'a) Payment"
| CallParseToken string "error + TokenClaims"
| is_CallLoadPayment: CallLoadPayment string "error + ('d, 'a) Payment"
| is_Subscribe: Subscribe string
| is_Cancel: Cancel string
| is_ConnRead: ConnRead "error option"
| is_ConnWrite: ConnWrite string "error option"
| is_Panic: Panic string

record ('w, 'd, 'a) hstate =
  world :: 'w
  trace :: "('d, 'a) effect list"

text \<open>
  The collaborators. The pure library functions first, then the calls that reach the
  outside world. \<open>DivRound\<close> is \<open>None\<close> where the decimal library panics (division by
  zero). \<open>unicode_ToUpper\<close> is what \<^verbatim>\<open>strings.ToUpper\<close> does to a string with a
  non-ASCII byte. \<open>subscribe\<close> is \<^verbatim>\<open>verifications.Subscribe\<close>: it takes the account
  and the callback and returns the cancel function. \<open>payment_Save\<close> and
  \<open>payment_StartChecking\<close> are the methods \<^verbatim>\<open>Save\<close> and \<^verbatim>\<open>StartChecking\<close> of the
  Payment; they act on the world and are taken to leave the fields set by \<^verbatim>\<open>handlePay\<close>
  as they are. \<open>w_Write\<close> is \<^verbatim>\<open>w.Write\<close> of the response writer.
\<close>

record ('w, 'd, 'a, 'x) env =
  config_Seed :: string
  decimal_NewFromString :: "string \<Rightarrow> error + 'd"
  DivRound :: "'d \<Rightarrow> 'd \<Rightarrow> int \<Rightarrow> 'd option"
  NanoToRaw :: "'d \<Rightarrow> 'a"
  unicode_ToUpper :: "string \<Rightarrow> string"
  json_Marshal :: "('d, 'a) Response \<Rightarrow> error + string"
  getNanoPrice :: "string \<Rightarrow> 'w \<Rightarrow> (error + 'd) \<times> 'w"
  NewIndex :: "'w \<Rightarrow> (error + nat) \<times> 'w"
  node_DeterministicKey :: "string \<Rightarrow> nat \<Rightarrow> 'w \<Rightarrow> (error + Key) \<times> 'w"
  NewToken :: "nat \<Rightarrow> string \<Rightarrow> 'w \<Rightarrow> (error + string) \<times> 'w"
  time_Now :: "'w \<Rightarrow> nat \<times> 'w"
  payment_Save :: "('d, 'a) Payment \<Rightarrow> 'w \<Rightarrow> error option \<times> 'w"
  payment_StartChecking :: "('d, 'a) Payment \<Rightarrow> 'w \<Rightarrow> 'w"
  ParseToken :: "string \<Rightarrow> 'w \<Rightarrow> (error + TokenClaims) \<times> 'w"
  LoadPayment :: "string \<Rightarrow> 'w \<Rightarrow> (error + ('d, 'a) Payment) \<times> 'w"
  w_Write :: "string \<Rightarrow> 'w \<Rightarrow> error option \<times> 'w"
  subscribe :: "string \<Rightarrow> (('d, 'a, 'x) Event \<Rightarrow> ('w, 'd, 'a) hstate \<Rightarrow> ('w, 'd, 'a) hstate)
                 \<Rightarrow> 'w \<Rightarrow> ('w \<Rightarrow> 'w) \<times> 'w"
  conn_Read :: "'w \<Rightarrow> error option \<times> 'w"
  conn_Write :: "string \<Rightarrow> 'w \<Rightarrow> error option \<times> 'w"

subsection \<open>Constants of net/http\<close>

definition MethodPost :: string where "MethodPost = ''POST''"
definition StatusBadRequest :: nat where "StatusBadRequest = 400"
definition StatusNotFound :: nat where "StatusNotFound = 404"
definition StatusMethodNotAllowed :: nat where "StatusMethodNotAllowed = 405"
definition StatusInternalServerError :: nat where "StatusInternalServerError = 500"

text \<open>\<^verbatim>\<open>http.StatusText\<close> on the codes the handlers use; the empty string otherwise.\<close>

definition StatusText :: "nat \<Rightarrow> string" where
  "StatusText code =
     (if code = 400 then ''Bad Request''
      else if code = 404 then ''Not Found''
      else if code = 405 then ''Method Not Allowed''
      else if code = 500 then ''Internal Server Error''
      else [])"

subsection \<open>Performing an effect\<close>

definition emit :: "('d, 'a) effect \<Rightarrow> ('w, 'd, 'a) hstate \<Rightarrow> ('w, 'd, 'a) hstate" where
  "emit e s = s\<lparr>trace := trace s @ [e]\<rparr>"

text \<open>A call to a collaborator: the world moves on, the call and its result are recorded.\<close>

definition call :: "('w \<Rightarrow> 'r \<times> 'w) \<Rightarrow> ('r \<Rightarrow> ('d, 'a) effect) \<Rightarrow> ('w, 'd, 'a) hstate
    \<Rightarrow> 'r \<times> ('w, 'd, 'a) hstate" where
  "call f mk s = (let (res, w') = f (world s) in (res, \<lparr>world = w', trace = trace s @ [mk res]\<rparr>))"

definition FormValue_of :: "Request \<Rightarrow> string \<Rightarrow> ('w, 'd, 'a) hstate \<Rightarrow> string \<times> ('w, 'd, 'a) hstate" where
  "FormValue_of r name s = (Form r name, emit (FormValue name) s)"

definition http_Error :: "string \<Rightarrow> nat \<Rightarrow> ('w, 'd, 'a) hstate \<Rightarrow> ('w, 'd, 'a) hstate" where
  "http_Error msg code s = emit (HttpError msg code) s"

definition perform :: "('w \<Rightarrow> 'w) \<Rightarrow> ('d, 'a) effect \<Rightarrow> ('w, 'd, 'a) hstate \<Rightarrow> ('w, 'd, 'a) hstate" where
  "perform f e s = \<lparr>world = f (world s), trace = trace s @ [e]\<rparr>"

definition log_Debug :: "logarg list \<Rightarrow> ('w, 'd, 'a) hstate \<Rightarrow> ('w, 'd, 'a) hstate" where
  "log_Debug args s = emit (LogDebug args) s"

definition log_Error :: "logarg list \<Rightarrow> ('w, 'd, 'a) hstate \<Rightarrow> ('w, 'd, 'a) hstate" where
  "log_Error args s = emit (LogError args) s"

text \<open>A handler starts in some world, with no effect performed yet.\<close>

definition start :: "'w \<Rightarrow> ('w, 'd, 'a) hstate" where
  "start w = \<lparr>world = w, trace = []\<rparr>"

subsection \<open>strings.ToUpper\<close>

text \<open>
  \<^verbatim>\<open>strings.ToUpper\<close>: a string of ASCII bytes is mapped byte by byte, a lower-case
  letter to its upper-case one; a string with a byte from \<^verbatim>\<open>utf8.RuneSelf\<close> (128) on
  goes through the Unicode tables.
\<close>

definition upper_byte :: "char \<Rightarrow> char" where
  "upper_byte c =
     (let n = (of_char c :: nat)
      in if 97 \<le> n \<and> n \<le> 122 then char_of (n - 32) else c)"

definition ToUpper :: "('w, 'd, 'a, 'x) env \<Rightarrow> string \<Rightarrow> string" where
  "ToUpper env s =
     (if list_all (\<lambda>c. (of_char c :: nat) < 128) s then map upper_byte s
      else unicode_ToUpper env s)"

subsection \<open>handlePay\<close>

text \<open>
  Lines 100 to 148 of \<^verbatim>\<open>handlePay\<close>, where the two branches of the currency test
  join: \<open>amount\<close> and \<open>currency\<close> are the variables the branches have assigned.
\<close>

definition handlePay_create :: "('w, 'd, 'a, 'x) env \<Rightarrow> Request \<Rightarrow> 'd \<Rightarrow> 'd \<Rightarrow> string
    \<Rightarrow> ('w, 'd, 'a) hstate \<Rightarrow> ('w, 'd, 'a) hstate" where
  "handlePay_create env r amountInCurrency amount currency0 s =
     (let currency = ToUpper env currency0 in
      case call (NewIndex env) CallNewIndex s of
        (Inl err, s1) \<Rightarrow>
          http_Error (StatusText StatusInternalServerError) StatusInternalServerError
            (log_Error [LogErr err] s1)
      | (Inr index, s1) \<Rightarrow>
      (case call (node_DeterministicKey env (config_Seed env) index)
              (DeterministicKey (config_Seed env) index) s1 of
        (Inl err, s2) \<Rightarrow>
          http_Error (StatusText StatusInternalServerError) StatusInternalServerError
            (log_Error [LogErr err] s2)
      | (Inr key, s2) \<Rightarrow>
      (case call (NewToken env index (Account key)) (CallNewToken index (Account key)) s2 of
        (Inl err, s3) \<Rightarrow>
          http_Error (StatusText StatusInternalServerError) StatusInternalServerError
            (log_Error [LogErr err] s3)
      | (Inr token, s3) \<Rightarrow>
      (let (state, s4) = FormValue_of r ''state'' s3;
           (now, s5) = call (time_Now env) TimeNow s4;
           payment = \<lparr>PublicKey = Public key,
                      PaymentAccount = Account key,
                      Index = index,
                      Amount = NanoToRaw env amount,
                      AmountInCurrency = amountInCurrency,
                      Currency = currency,
                      State = state,
                      CreatedAt = now\<rparr>
       in case call (payment_Save env payment) (Save payment) s5 of
        (Some err, s6) \<Rightarrow>
          http_Error (StatusText StatusInternalServerError) StatusInternalServerError
            (log_Error [LogErr err] s6)
      | (None, s6) \<Rightarrow>
      (let s7 = perform (payment_StartChecking env payment) (StartChecking payment) s6;
           response = NewResponse payment token
       in case json_Marshal env response of
        Inl err \<Rightarrow>
          http_Error (StatusText StatusInternalServerError) StatusInternalServerError
            (log_Error [LogErr err] s7)
      | Inr b \<Rightarrow>
      (let s8 = log_Debug [LogStr ''created new payment: %s'', LogStr b] s7
       in case call (w_Write env b) (ResponseWrite b) s8 of
        (Some err, s9) \<Rightarrow> log_Debug [LogErr err] s9
      | (None, s9) \<Rightarrow> s9))))))"

definition handlePay :: "('w, 'd, 'a, 'x) env \<Rightarrow> Request \<Rightarrow> ('w, 'd, 'a) hstate
    \<Rightarrow> ('w, 'd, 'a) hstate" where
  "handlePay env r s =
     (if Method r \<noteq> MethodPost then http_Error ''POST only'' StatusMethodNotAllowed s
      else
        let (amount_text, s1) = FormValue_of r ''amount'' s in
        case decimal_NewFromString env amount_text of
          Inl err \<Rightarrow> http_Error ''invalid amount'' StatusBadRequest (log_Debug [LogErr err] s1)
        | Inr amountInCurrency \<Rightarrow>
        (let (currency, s2) = FormValue_of r ''currency'' s1 in
         if currency \<noteq> [] then
           (case call (getNanoPrice env currency) (GetNanoPrice currency) s2 of
              (Inl err2, s3) \<Rightarrow>
                http_Error (StatusText StatusInternalServerError) StatusInternalServerError
                  (log_Error [LogErr err2] s3)
            | (Inr price, s3) \<Rightarrow>
              (case DivRound env amountInCurrency price 6 of
                 None \<Rightarrow> emit (Panic ''decimal division by 0'') s3
               | Some amount \<Rightarrow> handlePay_create env r amountInCurrency amount currency s3))
         else handlePay_create env r amountInCurrency amountInCurrency ''BCB'' s2))"

subsection \<open>handleVerify\<close>

definition handleVerify :: "('w, 'd, 'a, 'x) env \<Rightarrow> Request \<Rightarrow> ('w, 'd, 'a) hstate
    \<Rightarrow> ('w, 'd, 'a) hstate" where
  "handleVerify env r s =
     (let (token, s1) = FormValue_of r ''token'' s in
      if token = [] then http_Error ''invalid token'' StatusBadRequest s1
      else
        case call (ParseToken env token) (CallParseToken token) s1 of
          (Inl err, s2) \<Rightarrow> http_Error ''invalid token'' StatusBadRequest s2
        | (Inr claims, s2) \<Rightarrow>
        (case call (LoadPayment env (claims_Account claims))
                (CallLoadPayment (claims_Account claims)) s2 of
          (Inl err, s3) \<Rightarrow>
            if err = errPaymentNotFound then
              http_Error (StatusText StatusNotFound) StatusNotFound
                (log_Debug [LogStr ''token not found:'', LogStr token] s3)
            else
              http_Error (StatusText StatusInternalServerError) StatusInternalServerError
                (log_Error [LogErr err] s3)
        | (Inr payment, s3) \<Rightarrow>
        (let response = NewResponse payment token
         in case json_Marshal env response of
          Inl err \<Rightarrow>
            http_Error (StatusText StatusInternalServerError) StatusInternalServerError
              (log_Error [LogErr err] s3)
        | Inr b \<Rightarrow>
        (case call (w_Write env b) (ResponseWrite b) s3 of
          (Some err, s4) \<Rightarrow> log_Debug [LogErr err] s4
        | (None, s4) \<Rightarrow> s4))))"

subsection \<open>handleWebsocket\<close>

text \<open>
  The function value handed to \<^verbatim>\<open>Subscribe\<close> (lines 195 to 203). The type assertion
  \<^verbatim>\<open>e.(PaymentVerified)\<close> has one result, so it panics on an event of any other
  dynamic type. The result of \<^verbatim>\<open>conn.Write\<close> is dropped.
\<close>

definition websocket_callback :: "('w, 'd, 'a, 'x) env \<Rightarrow> string \<Rightarrow> ('d, 'a, 'x) Event
    \<Rightarrow> ('w, 'd, 'a) hstate \<Rightarrow> ('w, 'd, 'a) hstate" where
  "websocket_callback env token e s =
     (case e of
        OtherEvent x \<Rightarrow> emit (Panic ''interface conversion'') s
      | PaymentVerified pv \<Rightarrow>
        (let response = NewResponse pv token
         in case json_Marshal env response of
              Inl err \<Rightarrow> s
            | Inr b \<Rightarrow> snd (call (conn_Write env b) (ConnWrite b) s)))"

text \<open>
  The read loop (lines 207 to 212): it reads until a read fails, and a connection that
  never fails is read forever; then the loop has no result.
\<close>

partial_function (option) read_loop :: "('w, 'd, 'a, 'x) env \<Rightarrow> ('w, 'd, 'a) hstate
    \<Rightarrow> ('w, 'd, 'a) hstate option" where
  "read_loop env s =
     (case call (conn_Read env) ConnRead s of
        (Some err, s') \<Rightarrow> Some s'
      | (None, s') \<Rightarrow> read_loop env s')"

text \<open>
  The handler. \<^verbatim>\<open>defer cancel()\<close> runs the cancel function that \<^verbatim>\<open>Subscribe\<close>
  returned when the function returns, which it does from inside the read loop only.
\<close>

definition handleWebsocket :: "('w, 'd, 'a, 'x) env \<Rightarrow> Request \<Rightarrow> ('w, 'd, 'a) hstate
    \<Rightarrow> ('w, 'd, 'a) hstate option" where
  "handleWebsocket env r s =
     (let (token, s1) = FormValue_of r ''token'' s in
      if token = [] then Some s1
      else
        case call (ParseToken env token) (CallParseToken token) s1 of
          (Inl err, s2) \<Rightarrow> Some s2
        | (Inr claims, s2) \<Rightarrow>
        (let (cancel, s3) =
               call (subscribe env (claims_Account claims) (websocket_callback env token))
                 (\<lambda>_. Subscribe (claims_Account claims)) s2
         in case read_loop env s3 of
              None \<Rightarrow> None
            | Some s4 \<Rightarrow> Some (perform cancel (Cancel (claims_Account claims)) s4)))"

subsection \<open>Runs\<close>

text \<open>The effects of one pay request that arrives in world \<open>w\<close>.\<close>

definition pay_trace :: "('w, 'd, 'a, 'x) env \<Rightarrow> Request \<Rightarrow> 'w \<Rightarrow> ('d, 'a) effect list" where
  "pay_trace env r w = trace (handlePay env r (start w))"

text \<open>The effects that lines 100 to 148 of \<^verbatim>\<open>handlePay\<close> add to those before them.\<close>

definition create_trace :: "('w, 'd, 'a, 'x) env \<Rightarrow> Request \<Rightarrow> 'd \<Rightarrow> 'd \<Rightarrow> string
    \<Rightarrow> ('w, 'd, 'a) hstate \<Rightarrow> ('d, 'a) effect list" where
  "create_trace env r a amt cur s =
     drop (length (trace s)) (trace (handlePay_create env r a amt cur s))"

text \<open>
  The client disconnects: one of the first \<open>n + 1\<close> reads of the connection, from world
  \<open>w\<close> on, fails.
\<close>

fun disconnects_within :: "('w, 'd, 'a, 'x) env \<Rightarrow> nat \<Rightarrow> 'w \<Rightarrow> bool" where
  "disconnects_within env 0 w = (fst (conn_Read env w) \<noteq> None)"
| "disconnects_within env (Suc n) w =
     (case conn_Read env w of
        (Some err, w') \<Rightarrow> True
      | (None, w') \<Rightarrow> disconnects_within env n w')"

text \<open>The world after \<open>n\<close> reads of the connection, from world \<open>w\<close> on.\<close>

fun after_reads :: "('w, 'd, 'a, 'x) env \<Rightarrow> nat \<Rightarrow> 'w \<Rightarrow> 'w" where
  "after_reads env 0 w = w"
| "after_reads env (Suc n) w = after_reads env n (snd (conn_Read env w))"

subsection \<open>A small instance of the collaborators\<close>

text \<open>
  A world and collaborators to run the handlers on: an index counter, a store that
  fails when the disk does, a price table with one currency, tokens that are the account
  behind a prefix, and a connection that fails after a number of reads.
\<close>

record World =
  next_index :: nat
  disk_ok :: bool
  saved :: "(int, int) Payment list"
  watched :: "string list"
  clock :: nat
  subscribers :: "string list"
  reads_left :: nat

definition sample_env :: "(World, int, int, unit) env" where
  "sample_env =
     \<lparr>config_Seed = ''seed'',
      decimal_NewFromString = (\<lambda>s. if s = ''10'' then Inr 10 else Inl (Err ''not a decimal'')),
      DivRound = (\<lambda>a p k. if p = 0 then None else Some (a div p)),
      NanoToRaw = (\<lambda>d. d * 1000),
      unicode_ToUpper = (\<lambda>s. s),
      json_Marshal = (\<lambda>resp. Inr (ResponseToken resp @ '' '' @ State (ResponsePayment resp))),
      getNanoPrice = (\<lambda>c w. (if c = ''usd'' then Inr 2 else Inl (Err ''no price''), w)),
      NewIndex = (\<lambda>w. (Inr (next_index w), w\<lparr>next_index := Suc (next_index w)\<rparr>)),
      node_DeterministicKey = (\<lambda>seed i w. (Inr \<lparr>Public = ''pub'', Account = ''nano_'' @ replicate i CHR ''1''\<rparr>, w)),
      NewToken = (\<lambda>i acct w. (Inr (''t.'' @ acct), w)),
      time_Now = (\<lambda>w. (clock w, w\<lparr>clock := Suc (clock w)\<rparr>)),
      payment_Save = (\<lambda>p w. if disk_ok w then (None, w\<lparr>saved := p # saved w\<rparr>)
                             else (Some (Err ''disk failure''), w)),
      payment_StartChecking = (\<lambda>p w. w\<lparr>watched := PaymentAccount p # watched w\<rparr>),
      ParseToken = (\<lambda>t w. (if take 2 t = ''t.'' then Inr \<lparr>claims_Account = drop 2 t\<rparr>
                              else Inl (Err ''bad token''), w)),
      LoadPayment = (\<lambda>acct w.
        (case find (\<lambda>p. PaymentAccount p = acct) (saved w) of
           None \<Rightarrow> Inl errPaymentNotFound
         | Some p \<Rightarrow> Inr p, w)),
      w_Write = (\<lambda>b w. (None, w)),
      subscribe = (\<lambda>acct cb w.
        ((\<lambda>w'. w'\<lparr>subscribers := removeAll acct (subscribers w')\<rparr>),
         w\<lparr>subscribers := acct # subscribers w\<rparr>)),
      conn_Read = (\<lambda>w. if reads_left w = 0 then (Some (Err ''EOF''), w)
                         else (None, w\<lparr>reads_left := reads_left w - 1\<rparr>)),
      conn_Write = (\<lambda>b w. (None, w))\<rparr>"

definition sample_world :: World where
  "sample_world =
     \<lparr>next_index = 2, disk_ok = True, saved = [], watched = [], clock = 100,
      subscribers = [], reads_left = 1\<rparr>"

definition form_of :: "(string \<times> string) list \<Rightarrow> string \<Rightarrow> string" where
  "form_of kvs k = (case map_of kvs k of None \<Rightarrow> [] | Some v \<Rightarrow> v)"

definition request :: "string \<Rightarrow> (string \<times> string) list \<Rightarrow> Request" where
  "request m kvs = \<lparr>Method = m, Form = form_of kvs\<rparr>"

text \<open>Three pay requests, and the payments the first and the last of them create.\<close>

definition pay_usd :: Request where
  "pay_usd = request ''POST'' [(''amount'', ''10''), (''currency'', ''usd''), (''state'', ''order 1'')]"


definition pay_native :: Request where
  "pay_native = request ''POST'' [(''amount'', ''10''), (''state'', ''order 2'')]"

definition payment_usd :: "(int, int) Payment" where
  "payment_usd =
     \<lparr>PublicKey = ''pub'', PaymentAccount = ''nano_11'', Index = 2, Amount = 5000,
      AmountInCurrency = 10, Currency = ''USD'', State = ''order 1'', CreatedAt = 100\<rparr>"

definition payment_native :: "(int, int) Payment" where
  "payment_native =
     \<lparr>PublicKey = ''pub'', PaymentAccount = ''nano_11'', Index = 2, Amount = 10000,
      AmountInCurrency = 10, Currency = ''BCB'', State = ''order 2'', CreatedAt = 100\<rparr>"

text \<open>Three requests with a token: none, one that does not parse, one for an account.\<close>

definition no_token :: Request where
  "no_token = request ''GET'' []"

definition forged_token :: Request where
  "forged_token = request ''GET'' [(''token'', ''forged'')]"

definition token_nano :: Request where
  "token_nano = request ''GET'' [(''token'', ''t.nano_11'')]"

section \<open>Properties\<close>

subsection \<open>Unfolding and evaluation\<close>

lemmas hdefs = call_def emit_def http_Error_def log_Debug_def log_Error_def FormValue_of_def
  perform_def start_def

lemmas status_defs = MethodPost_def StatusText_def StatusBadRequest_def StatusNotFound_def
  StatusMethodNotAllowed_def StatusInternalServerError_def

lemmas sample_defs = sample_env_def sample_world_def request_def form_of_def

lemma upper_usd: "map upper_byte ''usd'' = ''USD''"
  by code_simp

lemma ToUpper_usd: "ToUpper env ''usd'' = ''USD''"
proof -
  have "list_all (\<lambda>c. (of_char c :: nat) < 128) ''usd''"
    by simp
  then show ?thesis
    by (simp only: ToUpper_def upper_usd if_True)
qed

lemma ToUpper_BCB: "ToUpper env ''BCB'' = ''BCB''"
  by (simp add: ToUpper_def upper_byte_def)

subsection \<open>The effects of lines 100 to 148\<close>

lemmas create_defs = handlePay_create_def hdefs Let_def

lemma create_appends:
  "trace (handlePay_create env r a amt cur s) = trace s @ create_trace env r a amt cur s"
proof -
  have "\<exists>tl. trace (handlePay_create env r a amt cur s) = trace s @ tl"
    by (auto simp: create_defs split: sum.splits prod.splits option.splits)
  then show ?thesis
    by (auto simp: create_trace_def)
qed


lemma create_save_first:
  "StartChecking p \<in> set (create_trace env r a amt cur s) \<longrightarrow>
   Save p None \<in> set (takeWhile (\<lambda>e. e \<noteq> StartChecking p) (create_trace env r a amt cur s))"
proof -
  have "\<exists>tl. trace (handlePay_create env r a amt cur s) = trace s @ tl \<and>
      (StartChecking p \<in> set tl \<longrightarrow>
       Save p None \<in> set (takeWhile (\<lambda>e. e \<noteq> StartChecking p) tl))"
    by (auto simp: create_defs split: sum.splits prod.splits option.splits)
  then show ?thesis
    by (auto simp: create_trace_def)
qed

lemma create_save_checked:
  "Save p None \<in> set (create_trace env r a amt cur s) \<longrightarrow>
   StartChecking p \<in> set (create_trace env r a amt cur s)"
proof -
  have "\<exists>tl. trace (handlePay_create env r a amt cur s) = trace s @ tl \<and>
      (Save p None \<in> set tl \<longrightarrow> StartChecking p \<in> set tl)"
    by (auto simp: create_defs split: sum.splits prod.splits option.splits)
  then show ?thesis
    by (auto simp: create_trace_def)
qed

lemma create_save_failed:
  "Save p (Some err) \<in> set (create_trace env r a amt cur s) \<longrightarrow>
   last (create_trace env r a amt cur s) =
     HttpError (StatusText StatusInternalServerError) StatusInternalServerError \<and>
   \<not> list_ex is_StartChecking (create_trace env r a amt cur s)"
proof -
  have "\<exists>tl. trace (handlePay_create env r a amt cur s) = trace s @ tl \<and>
      (Save p (Some err) \<in> set tl \<longrightarrow>
       last tl = HttpError (StatusText StatusInternalServerError) StatusInternalServerError \<and>
       \<not> list_ex is_StartChecking tl)"
    by (auto simp: create_defs split: sum.splits prod.splits option.splits)
  then show ?thesis
    by (auto simp: create_trace_def)
qed


text \<open>
  One case for each way through lines 100 to 148: no index, no key, no token, and the
  payment handed to \<^verbatim>\<open>Save\<close>, with the worlds the calls were made in and the final
  state for each outcome of \<^verbatim>\<open>Save\<close>, \<^verbatim>\<open>json.Marshal\<close> and \<^verbatim>\<open>w.Write\<close>.
\<close>

lemma create_cases:
  obtains
    (no_index) err w1 where "NewIndex env (world s) = (Inl err, w1)"
      "\<not> list_ex is_Save (create_trace env r a amt cur s)"
  | (no_key) index w1 err w2 where "NewIndex env (world s) = (Inr index, w1)"
      "node_DeterministicKey env (config_Seed env) index w1 = (Inl err, w2)"
      "\<not> list_ex is_Save (create_trace env r a amt cur s)"
  | (no_token) index w1 key w2 err w3 where "NewIndex env (world s) = (Inr index, w1)"
      "node_DeterministicKey env (config_Seed env) index w1 = (Inr key, w2)"
      "NewToken env index (Account key) w2 = (Inl err, w3)"
      "\<not> list_ex is_Save (create_trace env r a amt cur s)"
  | (saved) index w1 key w2 token w3 now w4 p res w5 T0 where
      "NewIndex env (world s) = (Inr index, w1)"
      "node_DeterministicKey env (config_Seed env) index w1 = (Inr key, w2)"
      "NewToken env index (Account key) w2 = (Inr token, w3)"
      "time_Now env w3 = (now, w4)"
      "p = \<lparr>PublicKey = Public key, PaymentAccount = Account key, Index = index,
             Amount = NanoToRaw env amt, AmountInCurrency = a, Currency = ToUpper env cur,
             State = Form r ''state'', CreatedAt = now\<rparr>"
      "payment_Save env p w4 = (res, w5)"
      "T0 = trace s @ [CallNewIndex (Inr index),
             DeterministicKey (config_Seed env) index (Inr key),
             CallNewToken index (Account key) (Inr token), FormValue ''state'', TimeNow now,
             Save p res]"
      "filter is_Save (create_trace env r a amt cur s) = [Save p res]"
      "\<forall>err. res = Some err \<longrightarrow>
         handlePay_create env r a amt cur s =
           \<lparr>world = w5,
            trace = T0 @ [LogError [LogErr err],
              HttpError (StatusText StatusInternalServerError) StatusInternalServerError]\<rparr>"
      "\<forall>err. res = None \<and> json_Marshal env (NewResponse p token) = Inl err \<longrightarrow>
         handlePay_create env r a amt cur s =
           \<lparr>world = payment_StartChecking env p w5,
            trace = T0 @ [StartChecking p, LogError [LogErr err],
              HttpError (StatusText StatusInternalServerError) StatusInternalServerError]\<rparr>"
      "\<forall>b werr w6. res = None \<and> json_Marshal env (NewResponse p token) = Inr b \<and>
         w_Write env b (payment_StartChecking env p w5) = (werr, w6) \<longrightarrow>
         handlePay_create env r a amt cur s =
           \<lparr>world = w6,
            trace = T0 @ [StartChecking p,
              LogDebug [LogStr ''created new payment: %s'', LogStr b], ResponseWrite b werr] @
              (case werr of None \<Rightarrow> [] | Some e \<Rightarrow> [LogDebug [LogErr e]])\<rparr>"
proof -
  obtain ri w1 where idx: "NewIndex env (world s) = (ri, w1)"
    by (cases "NewIndex env (world s)")
  show ?thesis
  proof (cases ri)
    case (Inl err)
    with idx have "\<exists>tl. trace (handlePay_create env r a amt cur s) = trace s @ tl \<and>
        \<not> list_ex is_Save tl"
      by (simp add: create_defs)
    then have "\<not> list_ex is_Save (create_trace env r a amt cur s)"
      by (auto simp: create_trace_def)
    with idx Inl show ?thesis
      by (intro no_index [of err w1]) simp_all
  next
    case index: (Inr index)
    obtain rk w2 where key: "node_DeterministicKey env (config_Seed env) index w1 = (rk, w2)"
      by (cases "node_DeterministicKey env (config_Seed env) index w1")
    show ?thesis
    proof (cases rk)
      case (Inl err)
      with idx index key have "\<exists>tl. trace (handlePay_create env r a amt cur s) = trace s @ tl \<and>
          \<not> list_ex is_Save tl"
        by (simp add: create_defs)
      then have "\<not> list_ex is_Save (create_trace env r a amt cur s)"
        by (auto simp: create_trace_def)
      with idx index key Inl show ?thesis
        by (intro no_key [of index w1 err w2]) simp_all
    next
      case k: (Inr k)
      obtain rt w3 where tok: "NewToken env index (Account k) w2 = (rt, w3)"
        by (cases "NewToken env index (Account k) w2")
      show ?thesis
      proof (cases rt)
        case (Inl err)
        with idx index key k tok
        have "\<exists>tl. trace (handlePay_create env r a amt cur s) = trace s @ tl \<and>
            \<not> list_ex is_Save tl"
          by (simp add: create_defs)
        then have "\<not> list_ex is_Save (create_trace env r a amt cur s)"
          by (auto simp: create_trace_def)
        with idx index key k tok Inl show ?thesis
          by (intro no_token [of index w1 k w2 err w3]) simp_all
      next
        case token: (Inr token)
        obtain now w4 where now: "time_Now env w3 = (now, w4)"
          by (cases "time_Now env w3")
        let ?p = "\<lparr>PublicKey = Public k, PaymentAccount = Account k, Index = index,
             Amount = NanoToRaw env amt, AmountInCurrency = a, Currency = ToUpper env cur,
             State = Form r ''state'', CreatedAt = now\<rparr>"
        obtain res w5 where save: "payment_Save env ?p w4 = (res, w5)"
          by (cases "payment_Save env ?p w4")
        let ?T0 = "trace s @ [CallNewIndex (Inr index),
             DeterministicKey (config_Seed env) index (Inr k),
             CallNewToken index (Account k) (Inr token), FormValue ''state'', TimeNow now,
             Save ?p res]"
        from idx index key k tok token now save
        have "\<exists>tl. trace (handlePay_create env r a amt cur s) = trace s @ tl \<and>
            filter is_Save tl = [Save ?p res]"
          by (auto simp: create_defs split: sum.splits prod.splits option.splits)
        then have one: "filter is_Save (create_trace env r a amt cur s) = [Save ?p res]"
          by (auto simp: create_trace_def)
        from idx index key k tok token now save one show ?thesis
          by (intro saved [of index w1 k w2 token w3 now w4 ?p res w5 ?T0])
            (auto simp: create_defs split: option.splits)
      qed
    qed
  qed
qed

lemma Save_in_create:
  assumes "Save q resq \<in> set (pre @ create_trace env r a amt cur s)"
    and "\<not> list_ex is_Save pre"
    and "filter is_Save (create_trace env r a amt cur s) = [Save p res]"
  shows "q = p \<and> resq = res"
proof -
  from assms(1,2) have "Save q resq \<in> set (filter is_Save (create_trace env r a amt cur s))"
    by (auto simp: list_ex_iff)
  with assms(3) show ?thesis
    by simp
qed

subsection \<open>The paths through handlePay\<close>

text \<open>
  One case for each way through lines 76 to 99: the method gate, the amount, the price
  lookup, the division, and the two ways into the rest of the function.
\<close>

lemma handlePay_cases:
  obtains
    (not_post) "Method r \<noteq> MethodPost"
      "handlePay env r (start w) = \<lparr>world = w, trace = [HttpError ''POST only'' StatusMethodNotAllowed]\<rparr>"
  | (bad_amount) err where "Method r = MethodPost"
      "decimal_NewFromString env (Form r ''amount'') = Inl err"
      "handlePay env r (start w) = \<lparr>world = w, trace = [FormValue ''amount'', LogDebug [LogErr err],
          HttpError ''invalid amount'' StatusBadRequest]\<rparr>"
  | (no_price) a err w' where "Method r = MethodPost"
      "decimal_NewFromString env (Form r ''amount'') = Inr a"
      "Form r ''currency'' \<noteq> []"
      "getNanoPrice env (Form r ''currency'') w = (Inl err, w')"
      "handlePay env r (start w) = \<lparr>world = w', trace = [FormValue ''amount'', FormValue ''currency'',
          GetNanoPrice (Form r ''currency'') (Inl err), LogError [LogErr err],
          HttpError (StatusText StatusInternalServerError) StatusInternalServerError]\<rparr>"
  | (div_panic) a price w' where "Method r = MethodPost"
      "decimal_NewFromString env (Form r ''amount'') = Inr a"
      "Form r ''currency'' \<noteq> []"
      "getNanoPrice env (Form r ''currency'') w = (Inr price, w')"
      "DivRound env a price 6 = None"
      "handlePay env r (start w) = \<lparr>world = w', trace = [FormValue ''amount'', FormValue ''currency'',
          GetNanoPrice (Form r ''currency'') (Inr price), Panic ''decimal division by 0'']\<rparr>"
  | (fiat) a price w' amount where "Method r = MethodPost"
      "decimal_NewFromString env (Form r ''amount'') = Inr a"
      "Form r ''currency'' \<noteq> []"
      "getNanoPrice env (Form r ''currency'') w = (Inr price, w')"
      "DivRound env a price 6 = Some amount"
      "handlePay env r (start w) = handlePay_create env r a amount (Form r ''currency'')
          \<lparr>world = w', trace = [FormValue ''amount'', FormValue ''currency'',
          GetNanoPrice (Form r ''currency'') (Inr price)]\<rparr>"
  | (native) a where "Method r = MethodPost"
      "decimal_NewFromString env (Form r ''amount'') = Inr a"
      "Form r ''currency'' = []"
      "handlePay env r (start w) = handlePay_create env r a a ''BCB''
          \<lparr>world = w, trace = [FormValue ''amount'', FormValue ''currency'']\<rparr>"
proof (cases "Method r = MethodPost")
  case False
  then show ?thesis
    by (intro not_post) (simp_all add: handlePay_def hdefs)
next
  case post: True
  show ?thesis
  proof (cases "decimal_NewFromString env (Form r ''amount'')")
    case (Inl err)
    with post show ?thesis
      by (intro bad_amount [of err]) (simp_all add: handlePay_def hdefs)
  next
    case amt: (Inr a)
    show ?thesis
    proof (cases "Form r ''currency'' = []")
      case True
      with post amt show ?thesis
        by (intro native [of a]) (simp_all add: handlePay_def hdefs)
    next
      case cur: False
      obtain res w' where price: "getNanoPrice env (Form r ''currency'') w = (res, w')"
        by (cases "getNanoPrice env (Form r ''currency'') w")
      show ?thesis
      proof (cases res)
        case (Inl err)
        with post amt cur price show ?thesis
          by (intro no_price [of a err w']) (simp_all add: handlePay_def hdefs)
      next
        case ok: (Inr p)
        show ?thesis
        proof (cases "DivRound env a p 6")
          case None
          with post amt cur price ok show ?thesis
            by (intro div_panic [of a p w']) (simp_all add: handlePay_def hdefs)
        next
          case (Some amount)
          with post amt cur price ok show ?thesis
            by (intro fiat [of a p w' amount]) (simp_all add: handlePay_def hdefs)
        qed
      qed
    qed
  qed
qed

lemma pay_trace_fiat:
  assumes "handlePay env r (start w) = handlePay_create env r a amount cur
          \<lparr>world = w', trace = [FormValue ''amount'', FormValue ''currency'',
          GetNanoPrice cur (Inr price)]\<rparr>"
  shows "pay_trace env r w = [FormValue ''amount'', FormValue ''currency'',
          GetNanoPrice cur (Inr price)] @ create_trace env r a amount cur
          \<lparr>world = w', trace = [FormValue ''amount'', FormValue ''currency'',
          GetNanoPrice cur (Inr price)]\<rparr>"
  by (simp add: pay_trace_def assms create_appends)

lemma pay_trace_native:
  assumes "handlePay env r (start w) = handlePay_create env r a amount cur
          \<lparr>world = w, trace = [FormValue ''amount'', FormValue ''currency'']\<rparr>"
  shows "pay_trace env r w = [FormValue ''amount'', FormValue ''currency'']
          @ create_trace env r a amount cur
          \<lparr>world = w, trace = [FormValue ''amount'', FormValue ''currency'']\<rparr>"
  by (simp add: pay_trace_def assms create_appends)

subsection \<open>The read loop\<close>

text \<open>
  A loop that returns has added reads and nothing else; and it returns when the client
  disconnects. More exactly: the loop returns after \<open>n\<close> reads that succeed and one that
  fails, in the world the failed read left; every loop that returns is of that kind; and
  where no read ever fails the loop has no result.
\<close>

lemma read_loop_reads:
  assumes "read_loop env s = Some s'"
  shows "\<exists>reads. trace s' = trace s @ reads \<and> list_all is_ConnRead reads"
  using assms
proof (induction rule: read_loop.raw_induct [rotated 1, consumes 1])
  case (1 loop env s s')
  obtain res w' where rd: "conn_Read env (world s) = (res, w')"
    by (cases "conn_Read env (world s)")
  show ?case
  proof (cases res)
    case None
    with rd "1.hyps" have "loop env \<lparr>world = w', trace = trace s @ [ConnRead None]\<rparr> = Some s'"
      by (simp add: call_def)
    from "1.IH" [OF this] show ?thesis
      by auto
  next
    case (Some err)
    with rd "1.hyps" show ?thesis
      by (auto simp: call_def)
  qed
qed

lemma reads_only:
  "list_all is_ConnRead reads \<Longrightarrow>
   filter is_Subscribe reads = [] \<and> filter is_Cancel reads = []"
  by (induction reads) (auto simp: is_ConnRead_def)

lemma read_loop_run:
  "(\<forall>k<n. fst (conn_Read env (after_reads env k (world s))) = None) \<Longrightarrow>
   conn_Read env (after_reads env n (world s)) = (Some err, w4) \<Longrightarrow>
   read_loop env s =
     Some \<lparr>world = w4, trace = trace s @ replicate n (ConnRead None) @ [ConnRead (Some err)]\<rparr>"
proof (induction n arbitrary: s)
  case 0
  then show ?case
    by (subst read_loop.simps) (simp add: call_def)
next
  case (Suc n)
  obtain w' where rd: "conn_Read env (world s) = (None, w')"
    using Suc.prems(1) [rule_format, of 0] by (cases "conn_Read env (world s)") simp
  let ?s = "\<lparr>world = w', trace = trace s @ [ConnRead None]\<rparr>"
  have "\<forall>k<n. fst (conn_Read env (after_reads env k (world ?s))) = None"
    using Suc.prems(1) rd by (auto dest: spec [of _ "Suc k" for k])
  moreover have "conn_Read env (after_reads env n (world ?s)) = (Some err, w4)"
    using Suc.prems(2) rd by simp
  ultimately have "read_loop env ?s =
      Some \<lparr>world = w4, trace = trace ?s @ replicate n (ConnRead None) @ [ConnRead (Some err)]\<rparr>"
    by (rule Suc.IH)
  with rd show ?case
    by (subst read_loop.simps) (simp add: call_def replicate_app_Cons_same)
qed

lemma read_loop_shape:
  assumes "read_loop env s = Some s'"
  shows "\<exists>n err. (\<forall>k<n. fst (conn_Read env (after_reads env k (world s))) = None) \<and>
     conn_Read env (after_reads env n (world s)) = (Some err, world s') \<and>
     trace s' = trace s @ replicate n (ConnRead None) @ [ConnRead (Some err)]"
  using assms
proof (induction rule: read_loop.raw_induct [rotated 1, consumes 1])
  case (1 loop env s s')
  obtain res w' where rd: "conn_Read env (world s) = (res, w')"
    by (cases "conn_Read env (world s)")
  show ?case
  proof (cases res)
    case None
    let ?s = "\<lparr>world = w', trace = trace s @ [ConnRead None]\<rparr>"
    from None rd "1.hyps" have "loop env ?s = Some s'"
      by (simp add: call_def)
    from "1.IH" [OF this] obtain n err
      where ok: "\<forall>k<n. fst (conn_Read env (after_reads env k w')) = None"
        and fail: "conn_Read env (after_reads env n w') = (Some err, world s')"
        and tr: "trace s' = trace s @ [ConnRead None] @ replicate n (ConnRead None) @ [ConnRead (Some err)]"
      by auto
    have "\<forall>k<Suc n. fst (conn_Read env (after_reads env k (world s))) = None"
    proof (intro allI impI)
      fix k assume "k < Suc n"
      then show "fst (conn_Read env (after_reads env k (world s))) = None"
        using ok rd None by (cases k) simp_all
    qed
    moreover have "conn_Read env (after_reads env (Suc n) (world s)) = (Some err, world s')"
      using fail rd by simp
    moreover have "trace s' = trace s @ replicate (Suc n) (ConnRead None) @ [ConnRead (Some err)]"
      using tr by simp
    ultimately show ?thesis
      by blast
  next
    case (Some err)
    with rd "1.hyps" have "s' = \<lparr>world = w', trace = trace s @ [ConnRead (Some err)]\<rparr>"
      by (simp add: call_def)
    with rd Some have "(\<forall>k<0. fst (conn_Read env (after_reads env k (world s))) = None) \<and>
        conn_Read env (after_reads env 0 (world s)) = (Some err, world s') \<and>
        trace s' = trace s @ replicate 0 (ConnRead None) @ [ConnRead (Some err)]"
      by simp
    then show ?thesis
      by blast
  qed
qed

lemma read_loop_never:
  assumes "\<forall>n. fst (conn_Read env (after_reads env n (world s))) = None"
  shows "read_loop env s = None"
proof (cases "read_loop env s")
  case None
  then show ?thesis .
next
  case (Some s')
  from read_loop_shape [OF Some] obtain n err
    where "conn_Read env (after_reads env n (world s)) = (Some err, world s')"
    by blast
  with assms [rule_format, of n] show ?thesis
    by simp
qed

lemma read_loop_returns:
  "disconnects_within env n (world s) \<Longrightarrow> \<exists>s'. read_loop env s = Some s'"
proof (induction n arbitrary: s)
  case 0
  then show ?case
    by (subst read_loop.simps) (auto simp: call_def split: prod.splits option.splits)
next
  case (Suc n)
  obtain res w' where rd: "conn_Read env (world s) = (res, w')"
    by (cases "conn_Read env (world s)")
  show ?case
  proof (cases res)
    case None
    with rd Suc.prems have "disconnects_within env n w'"
      by simp
    then have "\<exists>s'. read_loop env \<lparr>world = w', trace = trace s @ [ConnRead None]\<rparr> = Some s'"
      using Suc.IH [of "\<lparr>world = w', trace = trace s @ [ConnRead None]\<rparr>"] by simp
    with rd None show ?thesis
      by (subst read_loop.simps) (simp add: call_def)
  next
    case (Some err)
    with rd show ?thesis
      by (subst read_loop.simps) (simp add: call_def)
  qed
qed

subsection \<open>Runs of the sample requests\<close>

lemma sample_pay_usd:
  "pay_trace sample_env pay_usd sample_world =
   [FormValue ''amount'', FormValue ''currency'', GetNanoPrice ''usd'' (Inr 2),
    CallNewIndex (Inr 2),
    DeterministicKey ''seed'' 2 (Inr \<lparr>Public = ''pub'', Account = ''nano_11''\<rparr>),
    CallNewToken 2 ''nano_11'' (Inr ''t.nano_11''), FormValue ''state'', TimeNow 100,
    Save payment_usd None, StartChecking payment_usd,
    LogDebug [LogStr ''created new payment: %s'', LogStr ''t.nano_11 order 1''],
    ResponseWrite ''t.nano_11 order 1'' None]"
  by (simp add: pay_trace_def handlePay_def handlePay_create_def hdefs sample_defs pay_usd_def payment_usd_def Let_def
      status_defs ToUpper_usd NewResponse_def numeral_2_eq_2)


lemma sample_pay_disk_failure:
  "pay_trace sample_env pay_native (sample_world\<lparr>disk_ok := False\<rparr>) =
   [FormValue ''amount'', FormValue ''currency'', CallNewIndex (Inr 2),
    DeterministicKey ''seed'' 2 (Inr \<lparr>Public = ''pub'', Account = ''nano_11''\<rparr>),
    CallNewToken 2 ''nano_11'' (Inr ''t.nano_11''), FormValue ''state'', TimeNow 100,
    Save payment_native (Some (Err ''disk failure'')),
    LogError [LogErr (Err ''disk failure'')],
    HttpError ''Internal Server Error'' 500]"
  by (simp add: pay_trace_def handlePay_def handlePay_create_def hdefs sample_defs pay_native_def payment_native_def Let_def
      status_defs ToUpper_BCB NewResponse_def numeral_2_eq_2)


subsection \<open>The method gate of handlePay\<close>

text \<open>
  C9: a request to the pay endpoint whose method is not POST is answered with 405 Method
  Not Allowed ("POST only"), and that response is the only effect: no form value is
  read, no collaborator is called, the world is the one the request arrived in.
\<close>

theorem handlePay_other_method:
  "Method r \<noteq> MethodPost \<Longrightarrow>
   handlePay env r (start w) =
     \<lparr>world = w, trace = [HttpError ''POST only'' StatusMethodNotAllowed]\<rparr>"
  by (simp add: handlePay_def hdefs)

theorem handlePay_other_method_witness:
  "Method (request ''GET'' [(''amount'', ''10'')]) \<noteq> MethodPost \<and>
   handlePay sample_env (request ''GET'' [(''amount'', ''10'')]) (start sample_world) =
     \<lparr>world = sample_world, trace = [HttpError ''POST only'' 405]\<rparr>"
proof -
  have get: "Method (request ''GET'' [(''amount'', ''10'')]) \<noteq> MethodPost"
    by (simp add: request_def MethodPost_def)
  from handlePay_other_method [OF get, of sample_env sample_world] get show ?thesis
    by (simp add: StatusMethodNotAllowed_def)
qed

subsection \<open>An amount that is not a decimal\<close>

text \<open>
  C5: a pay request (a POST, which passes the method gate) whose \<^verbatim>\<open>amount\<close> form value
  does not parse as a decimal is answered with 400 Bad Request ("invalid amount"). The
  effects are reading the form value, the debug log line and the response: no price
  lookup, no index allocation, no key derivation, no save, and the world is unchanged.
\<close>

theorem handlePay_invalid_amount:
  "Method r = MethodPost \<Longrightarrow> decimal_NewFromString env (Form r ''amount'') = Inl err \<Longrightarrow>
   handlePay env r (start w) =
     \<lparr>world = w,
      trace = [FormValue ''amount'', LogDebug [LogErr err],
               HttpError ''invalid amount'' StatusBadRequest]\<rparr>"
  by (simp add: handlePay_def hdefs)

theorem handlePay_invalid_amount_witness:
  "Method (request ''POST'' [(''amount'', ''ten''), (''currency'', ''usd'')]) = MethodPost \<and>
   decimal_NewFromString sample_env
     (Form (request ''POST'' [(''amount'', ''ten''), (''currency'', ''usd'')]) ''amount'')
     = Inl (Err ''not a decimal'') \<and>
   handlePay sample_env (request ''POST'' [(''amount'', ''ten''), (''currency'', ''usd'')])
     (start sample_world) =
     \<lparr>world = sample_world,
      trace = [FormValue ''amount'', LogDebug [LogErr (Err ''not a decimal'')],
               HttpError ''invalid amount'' 400]\<rparr>"
proof -
  let ?r = "request ''POST'' [(''amount'', ''ten''), (''currency'', ''usd'')]"
  have post: "Method ?r = MethodPost"
    by (simp add: request_def MethodPost_def)
  have bad: "decimal_NewFromString sample_env (Form ?r ''amount'') = Inl (Err ''not a decimal'')"
    by (simp add: sample_defs)
  from handlePay_invalid_amount [OF post bad, of sample_world] post bad show ?thesis
    by (simp add: StatusBadRequest_def)
qed

subsection \<open>Save before StartChecking\<close>

text \<open>
  C1: in every run of \<^verbatim>\<open>handlePay\<close> that hands a payment to \<^verbatim>\<open>Save\<close>, the call is
  made on the store: in the world \<open>w4\<close> that the calls before it have left (the price
  lookup if there is a currency, \<^verbatim>\<open>NewIndex\<close>, \<^verbatim>\<open>DeterministicKey\<close>, \<^verbatim>\<open>NewToken\<close>,
  \<^verbatim>\<open>time.Now\<close>), and it leaves the world \<open>w5\<close>. When it returns an error the run ends
  in \<open>w5\<close> with the 500 Internal Server Error response, and \<^verbatim>\<open>StartChecking\<close> is not
  performed. When it returns no error, \<^verbatim>\<open>StartChecking\<close> is performed next, on the
  world \<open>w5\<close> in which the payment is saved, and the final state is the one that the
  marshalling and the write of the response then give. On the effects alone: a
  \<^verbatim>\<open>StartChecking\<close> of a payment comes after a \<^verbatim>\<open>Save\<close> of that payment that
  returned no error, a payment saved without error is then checked, and a run with a
  failed save ends with the 500 response and has no \<^verbatim>\<open>StartChecking\<close>.
\<close>

theorem handlePay_save_before_checking:
  "(\<forall>p res. Save p res \<in> set (pay_trace env r w) \<longrightarrow>
      (\<exists>a amount cur w0 pre index w1 key w2 token w3 now w4 w5 T0.
         Method r = MethodPost \<and>
         decimal_NewFromString env (Form r ''amount'') = Inr a \<and>
         (Form r ''currency'' = [] \<and> amount = a \<and> cur = ''BCB'' \<and> w0 = w \<and>
            pre = [FormValue ''amount'', FormValue ''currency'']
          \<or> Form r ''currency'' \<noteq> [] \<and> cur = Form r ''currency'' \<and>
            (\<exists>price. getNanoPrice env cur w = (Inr price, w0) \<and>
               DivRound env a price 6 = Some amount \<and>
               pre = [FormValue ''amount'', FormValue ''currency'',
                      GetNanoPrice cur (Inr price)])) \<and>
         NewIndex env w0 = (Inr index, w1) \<and>
         node_DeterministicKey env (config_Seed env) index w1 = (Inr key, w2) \<and>
         NewToken env index (Account key) w2 = (Inr token, w3) \<and>
         time_Now env w3 = (now, w4) \<and>
         p = \<lparr>PublicKey = Public key, PaymentAccount = Account key, Index = index,
               Amount = NanoToRaw env amount, AmountInCurrency = a,
               Currency = ToUpper env cur, State = Form r ''state'', CreatedAt = now\<rparr> \<and>
         payment_Save env p w4 = (res, w5) \<and>
         T0 = pre @ [CallNewIndex (Inr index),
                DeterministicKey (config_Seed env) index (Inr key),
                CallNewToken index (Account key) (Inr token), FormValue ''state'',
                TimeNow now, Save p res] \<and>
         (\<forall>err. res = Some err \<longrightarrow>
            handlePay env r (start w) =
              \<lparr>world = w5,
               trace = T0 @ [LogError [LogErr err],
                 HttpError (StatusText StatusInternalServerError) StatusInternalServerError]\<rparr>) \<and>
         (\<forall>err. res = None \<and> json_Marshal env (NewResponse p token) = Inl err \<longrightarrow>
            handlePay env r (start w) =
              \<lparr>world = payment_StartChecking env p w5,
               trace = T0 @ [StartChecking p, LogError [LogErr err],
                 HttpError (StatusText StatusInternalServerError) StatusInternalServerError]\<rparr>) \<and>
         (\<forall>b werr w6. res = None \<and> json_Marshal env (NewResponse p token) = Inr b \<and>
            w_Write env b (payment_StartChecking env p w5) = (werr, w6) \<longrightarrow>
            handlePay env r (start w) =
              \<lparr>world = w6,
               trace = T0 @ [StartChecking p,
                 LogDebug [LogStr ''created new payment: %s'', LogStr b], ResponseWrite b werr] @
                 (case werr of None \<Rightarrow> [] | Some e \<Rightarrow> [LogDebug [LogErr e]])\<rparr>))) \<and>
   (\<forall>p. StartChecking p \<in> set (pay_trace env r w) \<longrightarrow>
      Save p None \<in> set (takeWhile (\<lambda>e. e \<noteq> StartChecking p) (pay_trace env r w))) \<and>
   (\<forall>p. Save p None \<in> set (pay_trace env r w) \<longrightarrow>
      StartChecking p \<in> set (pay_trace env r w)) \<and>
   (\<forall>p err. Save p (Some err) \<in> set (pay_trace env r w) \<longrightarrow>
      last (pay_trace env r w) =
        HttpError (StatusText StatusInternalServerError) StatusInternalServerError \<and>
      \<not> list_ex is_StartChecking (pay_trace env r w))"
  (is "(\<forall>p res. ?M p res \<longrightarrow> ?Q p res) \<and> ?order")
proof (rule conjI)
  show "\<forall>p res. ?M p res \<longrightarrow> ?Q p res"
  proof (intro allI impI)
    fix q resq
    assume mem: "?M q resq"
    show "?Q q resq"
    proof (cases rule: handlePay_cases [of r env w])
      case not_post
      with mem show ?thesis by (simp add: pay_trace_def)
    next
      case (bad_amount err)
      with mem show ?thesis by (simp add: pay_trace_def)
    next
      case (no_price a err w')
      with mem show ?thesis by (simp add: pay_trace_def)
    next
      case (div_panic a price w')
      with mem show ?thesis by (simp add: pay_trace_def)
    next
      case (fiat a price w0 amount)
      let ?cur = "Form r ''currency''"
      let ?pre = "[FormValue ''amount'', FormValue ''currency'', GetNanoPrice ?cur (Inr price)]"
      let ?s = "\<lparr>world = w0, trace = ?pre\<rparr>"
      have T: "pay_trace env r w = ?pre @ create_trace env r a amount ?cur ?s"
        by (rule pay_trace_fiat [OF fiat(6)])
      show ?thesis
      proof (cases rule: create_cases [of env ?s r a amount ?cur])
        case (no_index err w1)
        with mem T have False by (auto simp: list_ex_iff)
        then show ?thesis ..
      next
        case (no_key index w1 err w2)
        with mem T have False by (auto simp: list_ex_iff)
        then show ?thesis ..
      next
        case (no_token index w1 key w2 err w3)
        with mem T have False by (auto simp: list_ex_iff)
        then show ?thesis ..
      next
        case (saved index w1 key w2 token w3 now w4 p res w5 T0)
        from mem T saved(8) have same: "q = p \<and> resq = res"
          by (intro Save_in_create [of q resq ?pre env r a amount ?cur ?s p res]) simp_all
        from same have q: "q = p" and rq: "resq = res"
          by simp_all
        have branch: "Form r ''currency'' = [] \<and> amount = a \<and> ?cur = ''BCB'' \<and> w0 = w \<and>
              ?pre = [FormValue ''amount'', FormValue ''currency'']
            \<or> Form r ''currency'' \<noteq> [] \<and> ?cur = Form r ''currency'' \<and>
              (\<exists>price. getNanoPrice env ?cur w = (Inr price, w0) \<and>
                 DivRound env a price 6 = Some amount \<and>
                 ?pre = [FormValue ''amount'', FormValue ''currency'',
                        GetNanoPrice ?cur (Inr price)])"
          using fiat(3-5) by simp
        have idx: "NewIndex env w0 = (Inr index, w1)"
          using saved(1) by simp
        have T0: "T0 = ?pre @ [CallNewIndex (Inr index),
                  DeterministicKey (config_Seed env) index (Inr key),
                  CallNewToken index (Account key) (Inr token), FormValue ''state'',
                  TimeNow now, Save p res]"
          using saved(7) by simp
        show ?thesis
          unfolding q rq fiat(6)
          using fiat(1,2) branch idx saved(2-6) T0 saved(9-11)
          by - (rule exI [of _ a], rule exI [of _ amount], rule exI [of _ "Form r ''currency''"],
              rule exI [of _ w0],
            rule exI [of _ "[FormValue ''amount'', FormValue ''currency'',
              GetNanoPrice (Form r ''currency'') (Inr price)]"],
            rule exI [of _ index],
              rule exI [of _ w1], rule exI [of _ key], rule exI [of _ w2],
              rule exI [of _ token], rule exI [of _ w3], rule exI [of _ now],
              rule exI [of _ w4], rule exI [of _ w5], rule exI [of _ T0],
            intro conjI; assumption)
      qed
    next
      case (native a)
      let ?pre = "[FormValue ''amount'', FormValue ''currency'']"
      let ?s = "\<lparr>world = w, trace = ?pre\<rparr>"
      have T: "pay_trace env r w = ?pre @ create_trace env r a a ''BCB'' ?s"
        by (rule pay_trace_native [OF native(4)])
      show ?thesis
      proof (cases rule: create_cases [of env ?s r a a "''BCB''"])
        case (no_index err w1)
        with mem T have False by (auto simp: list_ex_iff)
        then show ?thesis ..
      next
        case (no_key index w1 err w2)
        with mem T have False by (auto simp: list_ex_iff)
        then show ?thesis ..
      next
        case (no_token index w1 key w2 err w3)
        with mem T have False by (auto simp: list_ex_iff)
        then show ?thesis ..
      next
        case (saved index w1 key w2 token w3 now w4 p res w5 T0)
        from mem T saved(8) have same: "q = p \<and> resq = res"
          by (intro Save_in_create [of q resq ?pre env r a a "''BCB''" ?s p res]) simp_all
        from same have q: "q = p" and rq: "resq = res"
          by simp_all
        have branch: "Form r ''currency'' = [] \<and> a = a \<and> ''BCB'' = ''BCB'' \<and> w = w \<and>
              ?pre = [FormValue ''amount'', FormValue ''currency'']
            \<or> Form r ''currency'' \<noteq> [] \<and> ''BCB'' = Form r ''currency'' \<and>
              (\<exists>price. getNanoPrice env ''BCB'' w = (Inr price, w) \<and>
                 DivRound env a price 6 = Some a \<and>
                 ?pre = [FormValue ''amount'', FormValue ''currency'',
                        GetNanoPrice ''BCB'' (Inr price)])"
          using native(3) by simp
        have idx: "NewIndex env w = (Inr index, w1)"
          using saved(1) by simp
        have T0: "T0 = ?pre @ [CallNewIndex (Inr index),
                  DeterministicKey (config_Seed env) index (Inr key),
                  CallNewToken index (Account key) (Inr token), FormValue ''state'',
                  TimeNow now, Save p res]"
          using saved(7) by simp
        show ?thesis
          unfolding q rq native(4)
          using native(1,2) branch idx saved(2-6) T0 saved(9-11)
          by - (rule exI [of _ a], rule exI [of _ a], rule exI [of _ "''BCB''"],
              rule exI [of _ w],
            rule exI [of _ "[FormValue ''amount'', FormValue ''currency'']"],
            rule exI [of _ index],
              rule exI [of _ w1], rule exI [of _ key], rule exI [of _ w2],
              rule exI [of _ token], rule exI [of _ w3], rule exI [of _ now],
              rule exI [of _ w4], rule exI [of _ w5], rule exI [of _ T0],
            intro conjI; assumption)
      qed
    qed
  qed
next
  show ?order
  proof (cases rule: handlePay_cases [of r env w])
    case not_post
    then show ?thesis by (simp add: pay_trace_def)
  next
    case (bad_amount err)
    then show ?thesis by (simp add: pay_trace_def)
  next
    case (no_price a err w')
    then show ?thesis by (simp add: pay_trace_def)
  next
    case (div_panic a price w')
    then show ?thesis by (simp add: pay_trace_def)
  next
    case (fiat a price w' amount)
    let ?s = "\<lparr>world = w', trace = [FormValue ''amount'', FormValue ''currency'',
            GetNanoPrice (Form r ''currency'') (Inr price)]\<rparr>"
    let ?tl = "create_trace env r a amount (Form r ''currency'') ?s"
    have T: "pay_trace env r w = [FormValue ''amount'', FormValue ''currency'',
            GetNanoPrice (Form r ''currency'') (Inr price)] @ ?tl"
      by (rule pay_trace_fiat [OF fiat(6)])
    have order: "Save p None \<in> set (takeWhile (\<lambda>e. e \<noteq> StartChecking p) (pay_trace env r w))"
      if "StartChecking p \<in> set (pay_trace env r w)" for p
      using that create_save_first [of p env r a amount "Form r ''currency''" ?s]
      by (auto simp: T)
    have checked: "StartChecking p \<in> set (pay_trace env r w)"
      if "Save p None \<in> set (pay_trace env r w)" for p
      using that create_save_checked [of p env r a amount "Form r ''currency''" ?s]
      by (auto simp: T)
    have failed: "last (pay_trace env r w) =
          HttpError (StatusText StatusInternalServerError) StatusInternalServerError \<and>
        \<not> list_ex is_StartChecking (pay_trace env r w)"
      if "Save p (Some err) \<in> set (pay_trace env r w)" for p err
      using that create_save_failed [of p err env r a amount "Form r ''currency''" ?s]
      by (auto simp: T)
    from order checked failed show ?thesis by blast
  next
    case (native a)
    let ?s = "\<lparr>world = w, trace = [FormValue ''amount'', FormValue ''currency'']\<rparr>"
    let ?tl = "create_trace env r a a ''BCB'' ?s"
    have T: "pay_trace env r w = [FormValue ''amount'', FormValue ''currency''] @ ?tl"
      by (rule pay_trace_native [OF native(4)])
    have order: "Save p None \<in> set (takeWhile (\<lambda>e. e \<noteq> StartChecking p) (pay_trace env r w))"
      if "StartChecking p \<in> set (pay_trace env r w)" for p
      using that create_save_first [of p env r a a "''BCB''" ?s]
      by (auto simp: T)
    have checked: "StartChecking p \<in> set (pay_trace env r w)"
      if "Save p None \<in> set (pay_trace env r w)" for p
      using that create_save_checked [of p env r a a "''BCB''" ?s]
      by (auto simp: T)
    have failed: "last (pay_trace env r w) =
          HttpError (StatusText StatusInternalServerError) StatusInternalServerError \<and>
        \<not> list_ex is_StartChecking (pay_trace env r w)"
      if "Save p (Some err) \<in> set (pay_trace env r w)" for p err
      using that create_save_failed [of p err env r a a "''BCB''" ?s]
      by (auto simp: T)
    from order checked failed show ?thesis by blast
  qed
qed


theorem handlePay_save_before_checking_witness:
  "StartChecking payment_usd \<in> set (pay_trace sample_env pay_usd sample_world) \<and>
   Save payment_usd None \<in> set (pay_trace sample_env pay_usd sample_world) \<and>
   Save payment_usd None \<in>
     set (takeWhile (\<lambda>e. e \<noteq> StartChecking payment_usd)
            (pay_trace sample_env pay_usd sample_world)) \<and>
   handlePay sample_env pay_usd (start sample_world) =
     \<lparr>world = sample_world\<lparr>next_index := 3, clock := 101, saved := [payment_usd],
                watched := [''nano_11'']\<rparr>,
      trace = [FormValue ''amount'', FormValue ''currency'', GetNanoPrice ''usd'' (Inr 2),
        CallNewIndex (Inr 2),
        DeterministicKey ''seed'' 2 (Inr \<lparr>Public = ''pub'', Account = ''nano_11''\<rparr>),
        CallNewToken 2 ''nano_11'' (Inr ''t.nano_11''), FormValue ''state'', TimeNow 100,
        Save payment_usd None, StartChecking payment_usd,
        LogDebug [LogStr ''created new payment: %s'', LogStr ''t.nano_11 order 1''],
        ResponseWrite ''t.nano_11 order 1'' None]\<rparr> \<and>
   Save payment_native (Some (Err ''disk failure'')) \<in>
     set (pay_trace sample_env pay_native (sample_world\<lparr>disk_ok := False\<rparr>)) \<and>
   last (pay_trace sample_env pay_native (sample_world\<lparr>disk_ok := False\<rparr>)) =
     HttpError ''Internal Server Error'' 500 \<and>
   \<not> list_ex is_StartChecking (pay_trace sample_env pay_native (sample_world\<lparr>disk_ok := False\<rparr>)) \<and>
   handlePay sample_env pay_native (start (sample_world\<lparr>disk_ok := False\<rparr>)) =
     \<lparr>world = sample_world\<lparr>disk_ok := False, next_index := 3, clock := 101\<rparr>,
      trace = [FormValue ''amount'', FormValue ''currency'', CallNewIndex (Inr 2),
        DeterministicKey ''seed'' 2 (Inr \<lparr>Public = ''pub'', Account = ''nano_11''\<rparr>),
        CallNewToken 2 ''nano_11'' (Inr ''t.nano_11''), FormValue ''state'', TimeNow 100,
        Save payment_native (Some (Err ''disk failure'')),
        LogError [LogErr (Err ''disk failure'')],
        HttpError ''Internal Server Error'' 500]\<rparr>"
proof -
  let ?failing = "sample_world\<lparr>disk_ok := False\<rparr>"
  have started: "StartChecking payment_usd \<in> set (pay_trace sample_env pay_usd sample_world)"
    by (simp add: sample_pay_usd)
  have stored: "Save payment_usd None \<in> set (pay_trace sample_env pay_usd sample_world)"
    by (simp add: sample_pay_usd)
  have failed: "Save payment_native (Some (Err ''disk failure'')) \<in>
      set (pay_trace sample_env pay_native ?failing)"
    by (simp add: sample_pay_disk_failure)
  note usd = handlePay_save_before_checking [of sample_env pay_usd sample_world]
  note native = handlePay_save_before_checking [of sample_env pay_native ?failing]
  from usd started
  have order: "Save payment_usd None \<in>
     set (takeWhile (\<lambda>e. e \<noteq> StartChecking payment_usd)
            (pay_trace sample_env pay_usd sample_world))"
    by blast
  from native failed
  have ended: "last (pay_trace sample_env pay_native ?failing) =
      HttpError (StatusText StatusInternalServerError) StatusInternalServerError \<and>
    \<not> list_ex is_StartChecking (pay_trace sample_env pay_native ?failing)"
    by blast
  from usd [THEN conjunct1, rule_format, OF stored]
  have run_usd: "handlePay sample_env pay_usd (start sample_world) =
     \<lparr>world = sample_world\<lparr>next_index := 3, clock := 101, saved := [payment_usd],
                watched := [''nano_11'']\<rparr>,
      trace = [FormValue ''amount'', FormValue ''currency'', GetNanoPrice ''usd'' (Inr 2),
        CallNewIndex (Inr 2),
        DeterministicKey ''seed'' 2 (Inr \<lparr>Public = ''pub'', Account = ''nano_11''\<rparr>),
        CallNewToken 2 ''nano_11'' (Inr ''t.nano_11''), FormValue ''state'', TimeNow 100,
        Save payment_usd None, StartChecking payment_usd,
        LogDebug [LogStr ''created new payment: %s'', LogStr ''t.nano_11 order 1''],
        ResponseWrite ''t.nano_11 order 1'' None]\<rparr>"
    by (auto simp: sample_defs pay_usd_def payment_usd_def ToUpper_usd NewResponse_def
        numeral_2_eq_2)
  from native [THEN conjunct1, rule_format, OF failed]
  have run_native: "handlePay sample_env pay_native (start ?failing) =
     \<lparr>world = sample_world\<lparr>disk_ok := False, next_index := 3, clock := 101\<rparr>,
      trace = [FormValue ''amount'', FormValue ''currency'', CallNewIndex (Inr 2),
        DeterministicKey ''seed'' 2 (Inr \<lparr>Public = ''pub'', Account = ''nano_11''\<rparr>),
        CallNewToken 2 ''nano_11'' (Inr ''t.nano_11''), FormValue ''state'', TimeNow 100,
        Save payment_native (Some (Err ''disk failure'')),
        LogError [LogErr (Err ''disk failure'')],
        HttpError ''Internal Server Error'' 500]\<rparr>"
    by (auto simp: sample_defs pay_native_def payment_native_def ToUpper_BCB NewResponse_def
        numeral_2_eq_2 status_defs)
  from started stored order run_usd failed ended run_native show ?thesis
    by (simp add: status_defs)
qed


subsection \<open>A price lookup that fails\<close>




subsection \<open>The fields of the stored payment\<close>




subsection \<open>The state string\<close>




subsection \<open>Rejections of handleVerify\<close>

text \<open>
  C3: a verify request with an empty token is answered with 400 Bad Request ("invalid
  token") after reading the form value only; one whose token does not parse, with the
  same response after the \<^verbatim>\<open>ParseToken\<close> call only: in both \<^verbatim>\<open>LoadPayment\<close> is not
  called. One whose token parses and for whose account \<^verbatim>\<open>LoadPayment\<close> returns
  \<^verbatim>\<open>errPaymentNotFound\<close> is answered with 404 Not Found.
\<close>

theorem handleVerify_rejections:
  "(Form r ''token'' = [] \<longrightarrow>
      handleVerify env r (start w) =
        \<lparr>world = w,
         trace = [FormValue ''token'', HttpError ''invalid token'' StatusBadRequest]\<rparr>) \<and>
   (Form r ''token'' \<noteq> [] \<and> ParseToken env (Form r ''token'') w = (Inl err, w1) \<longrightarrow>
      handleVerify env r (start w) =
        \<lparr>world = w1,
         trace = [FormValue ''token'', CallParseToken (Form r ''token'') (Inl err),
                  HttpError ''invalid token'' StatusBadRequest]\<rparr>) \<and>
   (Form r ''token'' \<noteq> [] \<and> ParseToken env (Form r ''token'') w = (Inr claims, w1) \<and>
    LoadPayment env (claims_Account claims) w1 = (Inl errPaymentNotFound, w2) \<longrightarrow>
      handleVerify env r (start w) =
        \<lparr>world = w2,
         trace = [FormValue ''token'', CallParseToken (Form r ''token'') (Inr claims),
                  CallLoadPayment (claims_Account claims) (Inl errPaymentNotFound),
                  LogDebug [LogStr ''token not found:'', LogStr (Form r ''token'')],
                  HttpError (StatusText StatusNotFound) StatusNotFound]\<rparr>)"
  by (simp add: handleVerify_def hdefs)

theorem handleVerify_rejections_witness:
  "Form no_token ''token'' = [] \<and>
   handleVerify sample_env no_token (start sample_world) =
     \<lparr>world = sample_world, trace = [FormValue ''token'', HttpError ''invalid token'' 400]\<rparr> \<and>
   Form forged_token ''token'' \<noteq> [] \<and>
   ParseToken sample_env (Form forged_token ''token'') sample_world =
     (Inl (Err ''bad token''), sample_world) \<and>
   handleVerify sample_env forged_token (start sample_world) =
     \<lparr>world = sample_world,
      trace = [FormValue ''token'', CallParseToken ''forged'' (Inl (Err ''bad token'')),
               HttpError ''invalid token'' 400]\<rparr> \<and>
   Form token_nano ''token'' \<noteq> [] \<and>
   ParseToken sample_env (Form token_nano ''token'') sample_world =
     (Inr \<lparr>claims_Account = ''nano_11''\<rparr>, sample_world) \<and>
   LoadPayment sample_env ''nano_11'' sample_world = (Inl errPaymentNotFound, sample_world) \<and>
   handleVerify sample_env token_nano (start sample_world) =
     \<lparr>world = sample_world,
      trace = [FormValue ''token'',
               CallParseToken ''t.nano_11'' (Inr \<lparr>claims_Account = ''nano_11''\<rparr>),
               CallLoadPayment ''nano_11'' (Inl errPaymentNotFound),
               LogDebug [LogStr ''token not found:'', LogStr ''t.nano_11''],
               HttpError ''Not Found'' 404]\<rparr>"
proof -
  have none: "Form no_token ''token'' = []"
    by (simp add: sample_defs no_token_def)
  have forged: "Form forged_token ''token'' \<noteq> [] \<and>
      ParseToken sample_env (Form forged_token ''token'') sample_world =
        (Inl (Err ''bad token''), sample_world)"
    by (simp add: sample_defs forged_token_def)
  have absent: "Form token_nano ''token'' \<noteq> [] \<and>
      ParseToken sample_env (Form token_nano ''token'') sample_world =
        (Inr \<lparr>claims_Account = ''nano_11''\<rparr>, sample_world) \<and>
      LoadPayment sample_env (claims_Account \<lparr>claims_Account = ''nano_11''\<rparr>) sample_world =
        (Inl errPaymentNotFound, sample_world)"
    by (simp add: sample_defs token_nano_def)
  from handleVerify_rejections [of no_token sample_env sample_world] none
  have "handleVerify sample_env no_token (start sample_world) =
     \<lparr>world = sample_world, trace = [FormValue ''token'', HttpError ''invalid token'' 400]\<rparr>"
    by (simp add: status_defs)
  moreover
  from handleVerify_rejections [where r = forged_token and env = sample_env and w = sample_world
      and err = "Err ''bad token''" and ?w1.0 = sample_world] forged
  have "handleVerify sample_env forged_token (start sample_world) =
     \<lparr>world = sample_world,
      trace = [FormValue ''token'', CallParseToken ''forged'' (Inl (Err ''bad token'')),
               HttpError ''invalid token'' 400]\<rparr>"
    by (simp add: status_defs forged_token_def request_def form_of_def)
  moreover
  from handleVerify_rejections [where r = token_nano and env = sample_env and w = sample_world
      and claims = "\<lparr>claims_Account = ''nano_11''\<rparr>" and ?w1.0 = sample_world
      and ?w2.0 = sample_world] absent
  have "handleVerify sample_env token_nano (start sample_world) =
     \<lparr>world = sample_world,
      trace = [FormValue ''token'',
               CallParseToken ''t.nano_11'' (Inr \<lparr>claims_Account = ''nano_11''\<rparr>),
               CallLoadPayment ''nano_11'' (Inl errPaymentNotFound),
               LogDebug [LogStr ''token not found:'', LogStr ''t.nano_11''],
               HttpError ''Not Found'' 404]\<rparr>"
    by (simp add: status_defs token_nano_def request_def form_of_def)
  ultimately show ?thesis
    using none forged absent by simp
qed


subsection \<open>The subscription of handleWebsocket\<close>

text \<open>
  C7: for a websocket connection whose token parses, \<^verbatim>\<open>handleWebsocket\<close> subscribes
  once, for the account of the token and with the callback, and enters the read loop in
  the world \<open>w2\<close> that \<^verbatim>\<open>Subscribe\<close> has left; whatever state the loop returns, the
  cancel function that \<^verbatim>\<open>Subscribe\<close> returned is applied to it, as the last effect.
  When \<open>n\<close> reads succeed and the next one fails, leaving world \<open>w4\<close>, the handler
  returns in the world \<open>cancel w4\<close> after exactly these effects: the form value, the
  parse, the subscription, the \<open>n + 1\<close> reads, the cancel. Every run that returns is of
  that kind. When no read ever fails the handler does not return, and the subscription
  made in \<open>w2\<close> stays.
\<close>

theorem handleWebsocket_subscription:
  assumes "Form r ''token'' \<noteq> []"
    and "ParseToken env (Form r ''token'') w = (Inr claims, w1)"
    and "subscribe env (claims_Account claims) (websocket_callback env (Form r ''token'')) w1 =
           (cancel, w2)"
  shows "handleWebsocket env r (start w) =
           (case read_loop env
                   \<lparr>world = w2,
                    trace = [FormValue ''token'', CallParseToken (Form r ''token'') (Inr claims),
                             Subscribe (claims_Account claims)]\<rparr> of
              None \<Rightarrow> None
            | Some s4 \<Rightarrow> Some (perform cancel (Cancel (claims_Account claims)) s4)) \<and>
         (\<forall>n err w4.
            (\<forall>k<n. fst (conn_Read env (after_reads env k w2)) = None) \<and>
            conn_Read env (after_reads env n w2) = (Some err, w4) \<longrightarrow>
            handleWebsocket env r (start w) =
              Some \<lparr>world = cancel w4,
                    trace = [FormValue ''token'', CallParseToken (Form r ''token'') (Inr claims),
                             Subscribe (claims_Account claims)] @
                            replicate n (ConnRead None) @
                            [ConnRead (Some err), Cancel (claims_Account claims)]\<rparr>) \<and>
         (\<forall>s'. handleWebsocket env r (start w) = Some s' \<longrightarrow>
            (\<exists>n err w4.
               (\<forall>k<n. fst (conn_Read env (after_reads env k w2)) = None) \<and>
               conn_Read env (after_reads env n w2) = (Some err, w4) \<and>
               s' = \<lparr>world = cancel w4,
                     trace = [FormValue ''token'', CallParseToken (Form r ''token'') (Inr claims),
                              Subscribe (claims_Account claims)] @
                             replicate n (ConnRead None) @
                             [ConnRead (Some err), Cancel (claims_Account claims)]\<rparr>)) \<and>
         ((\<forall>n. fst (conn_Read env (after_reads env n w2)) = None) \<longrightarrow>
            handleWebsocket env r (start w) = None) \<and>
         (\<forall>s'. handleWebsocket env r (start w) = Some s' \<longrightarrow>
            (\<exists>reads w4.
               trace s' =
                 [FormValue ''token'', CallParseToken (Form r ''token'') (Inr claims),
                  Subscribe (claims_Account claims)] @ reads @ [Cancel (claims_Account claims)] \<and>
               list_all is_ConnRead reads \<and> world s' = cancel w4) \<and>
            filter is_Subscribe (trace s') = [Subscribe (claims_Account claims)] \<and>
            filter is_Cancel (trace s') = [Cancel (claims_Account claims)] \<and>
            last (trace s') = Cancel (claims_Account claims)) \<and>
         (\<forall>n. disconnects_within env n w2 \<longrightarrow>
            (\<exists>s'. handleWebsocket env r (start w) = Some s'))"
proof -
  let ?acct = "claims_Account claims"
  let ?pre = "[FormValue ''token'', CallParseToken (Form r ''token'') (Inr claims),
      Subscribe ?acct]"
  let ?s3 = "\<lparr>world = w2, trace = ?pre\<rparr>"
  have run: "handleWebsocket env r (start w) =
      (case read_loop env ?s3 of
         None \<Rightarrow> None
       | Some s4 \<Rightarrow> Some (perform cancel (Cancel ?acct) s4))"
    using assms by (simp add: handleWebsocket_def hdefs)
  have closed: "handleWebsocket env r (start w) =
      Some \<lparr>world = cancel w4,
            trace = ?pre @ replicate n (ConnRead None) @ [ConnRead (Some err), Cancel ?acct]\<rparr>"
    if "\<forall>k<n. fst (conn_Read env (after_reads env k w2)) = None"
      and "conn_Read env (after_reads env n w2) = (Some err, w4)" for n err w4
  proof -
    from that have "read_loop env ?s3 =
        Some \<lparr>world = w4, trace = trace ?s3 @ replicate n (ConnRead None) @ [ConnRead (Some err)]\<rparr>"
      by (intro read_loop_run) simp_all
    with run show ?thesis
      by (simp add: perform_def)
  qed
  have shape: "\<exists>n err w4.
      (\<forall>k<n. fst (conn_Read env (after_reads env k w2)) = None) \<and>
      conn_Read env (after_reads env n w2) = (Some err, w4) \<and>
      s' = \<lparr>world = cancel w4,
            trace = ?pre @ replicate n (ConnRead None) @ [ConnRead (Some err), Cancel ?acct]\<rparr>"
    if "handleWebsocket env r (start w) = Some s'" for s'
  proof -
    from that run obtain s4 where loop: "read_loop env ?s3 = Some s4"
      and s': "s' = perform cancel (Cancel ?acct) s4"
      by (auto split: option.splits)
    from read_loop_shape [OF loop] obtain n err
      where ok: "\<forall>k<n. fst (conn_Read env (after_reads env k w2)) = None"
        and fail: "conn_Read env (after_reads env n w2) = (Some err, world s4)"
        and tr: "trace s4 = ?pre @ replicate n (ConnRead None) @ [ConnRead (Some err)]"
      by auto
    from s' tr have "s' = \<lparr>world = cancel (world s4),
        trace = ?pre @ replicate n (ConnRead None) @ [ConnRead (Some err), Cancel ?acct]\<rparr>"
      by (simp add: perform_def)
    with ok fail show ?thesis
      by blast
  qed
  have never: "handleWebsocket env r (start w) = None"
    if "\<forall>n. fst (conn_Read env (after_reads env n w2)) = None"
  proof -
    from that have "read_loop env ?s3 = None"
      by (intro read_loop_never) simp
    with run show ?thesis
      by simp
  qed
  have returned: "(\<exists>reads w4. trace s' = ?pre @ reads @ [Cancel ?acct] \<and>
      list_all is_ConnRead reads \<and> world s' = cancel w4) \<and>
      filter is_Subscribe (trace s') = [Subscribe ?acct] \<and>
      filter is_Cancel (trace s') = [Cancel ?acct] \<and>
      last (trace s') = Cancel ?acct"
    if "handleWebsocket env r (start w) = Some s'" for s'
  proof -
    from that run obtain s4 where loop: "read_loop env ?s3 = Some s4"
      and s': "s' = perform cancel (Cancel ?acct) s4"
      by (auto split: option.splits)
    from read_loop_reads [OF loop] obtain reads
      where reads: "trace s4 = ?pre @ reads" "list_all is_ConnRead reads"
      by auto
    from reads s' have shape: "trace s' = ?pre @ reads @ [Cancel ?acct]"
      and final: "world s' = cancel (world s4)"
      by (simp_all add: perform_def)
    from shape reads_only [OF reads(2)]
    have "filter is_Subscribe (trace s') = [Subscribe ?acct]"
      and "filter is_Cancel (trace s') = [Cancel ?acct]"
      and "last (trace s') = Cancel ?acct"
      by simp_all
    with shape reads(2) final show ?thesis
      by blast
  qed
  have returns: "\<exists>s'. handleWebsocket env r (start w) = Some s'"
    if "disconnects_within env n w2" for n
  proof -
    from that have "disconnects_within env n (world ?s3)"
      by simp
    from read_loop_returns [OF this] obtain s4 where "read_loop env ?s3 = Some s4" ..
    with run show ?thesis
      by simp
  qed
  from closed have closed': "\<forall>n err w4.
      (\<forall>k<n. fst (conn_Read env (after_reads env k w2)) = None) \<and>
      conn_Read env (after_reads env n w2) = (Some err, w4) \<longrightarrow>
      handleWebsocket env r (start w) =
        Some \<lparr>world = cancel w4,
              trace = ?pre @ replicate n (ConnRead None) @ [ConnRead (Some err), Cancel ?acct]\<rparr>"
    by blast
  from shape have shape': "\<forall>s'. handleWebsocket env r (start w) = Some s' \<longrightarrow>
      (\<exists>n err w4.
        (\<forall>k<n. fst (conn_Read env (after_reads env k w2)) = None) \<and>
        conn_Read env (after_reads env n w2) = (Some err, w4) \<and>
        s' = \<lparr>world = cancel w4,
              trace = ?pre @ replicate n (ConnRead None) @ [ConnRead (Some err), Cancel ?acct]\<rparr>)"
    by blast
  from never have never': "(\<forall>n. fst (conn_Read env (after_reads env n w2)) = None) \<longrightarrow>
      handleWebsocket env r (start w) = None"
    by blast
  from returned have returned': "\<forall>s'. handleWebsocket env r (start w) = Some s' \<longrightarrow>
      (\<exists>reads w4. trace s' = ?pre @ reads @ [Cancel ?acct] \<and>
      list_all is_ConnRead reads \<and> world s' = cancel w4) \<and>
      filter is_Subscribe (trace s') = [Subscribe ?acct] \<and>
      filter is_Cancel (trace s') = [Cancel ?acct] \<and>
      last (trace s') = Cancel ?acct"
    by blast
  from returns have returns': "\<forall>n. disconnects_within env n w2 \<longrightarrow>
      (\<exists>s'. handleWebsocket env r (start w) = Some s')"
    by blast
  show ?thesis
    by (intro conjI run closed' shape' never' returned' returns')
qed


theorem handleWebsocket_subscription_witness:
  "Form token_nano ''token'' \<noteq> [] \<and>
   ParseToken sample_env (Form token_nano ''token'') sample_world =
     (Inr \<lparr>claims_Account = ''nano_11''\<rparr>, sample_world) \<and>
   fst (conn_Read sample_env (after_reads sample_env 0 (sample_world\<lparr>subscribers := [''nano_11'']\<rparr>)))
     = None \<and>
   conn_Read sample_env (after_reads sample_env (Suc 0) (sample_world\<lparr>subscribers := [''nano_11'']\<rparr>))
     = (Some (Err ''EOF''), sample_world\<lparr>subscribers := [''nano_11''], reads_left := 0\<rparr>) \<and>
   disconnects_within sample_env (Suc 0) (sample_world\<lparr>subscribers := [''nano_11'']\<rparr>) \<and>
   handleWebsocket sample_env token_nano (start sample_world) =
     Some \<lparr>world = sample_world\<lparr>subscribers := [], reads_left := 0\<rparr>,
           trace = [FormValue ''token'',
                    CallParseToken ''t.nano_11'' (Inr \<lparr>claims_Account = ''nano_11''\<rparr>),
                    Subscribe ''nano_11'', ConnRead None, ConnRead (Some (Err ''EOF'')),
                    Cancel ''nano_11'']\<rparr>"
proof -
  let ?cancel = "\<lambda>w'. w'\<lparr>subscribers := removeAll ''nano_11'' (subscribers w')\<rparr>"
  let ?w2 = "sample_world\<lparr>subscribers := [''nano_11'']\<rparr>"
  let ?w4 = "sample_world\<lparr>subscribers := [''nano_11''], reads_left := 0\<rparr>"
  have token: "Form token_nano ''token'' \<noteq> []"
    by (simp add: sample_defs token_nano_def)
  have parsed: "ParseToken sample_env (Form token_nano ''token'') sample_world =
      (Inr \<lparr>claims_Account = ''nano_11''\<rparr>, sample_world)"
    by (simp add: sample_defs token_nano_def)
  have subscribed: "subscribe sample_env (claims_Account \<lparr>claims_Account = ''nano_11''\<rparr>)
      (websocket_callback sample_env (Form token_nano ''token'')) sample_world = (?cancel, ?w2)"
    by (simp add: sample_defs token_nano_def)
  have first: "fst (conn_Read sample_env (after_reads sample_env 0 ?w2)) = None"
    by (simp add: sample_defs)
  have second: "conn_Read sample_env (after_reads sample_env (Suc 0) ?w2) = (Some (Err ''EOF''), ?w4)"
    by (simp add: sample_defs)
  have closes: "disconnects_within sample_env (Suc 0) ?w2"
    by (simp add: sample_defs)
  have reads: "\<forall>k<Suc 0. fst (conn_Read sample_env (after_reads sample_env k ?w2)) = None"
    using first by simp
  note sub = handleWebsocket_subscription [OF token parsed subscribed]
  from sub reads second
  have "handleWebsocket sample_env token_nano (start sample_world) =
      Some \<lparr>world = ?cancel ?w4,
            trace = [FormValue ''token'',
               CallParseToken (Form token_nano ''token'') (Inr \<lparr>claims_Account = ''nano_11''\<rparr>),
               Subscribe (claims_Account \<lparr>claims_Account = ''nano_11''\<rparr>)] @
               replicate (Suc 0) (ConnRead None) @
               [ConnRead (Some (Err ''EOF'')),
                Cancel (claims_Account \<lparr>claims_Account = ''nano_11''\<rparr>)]\<rparr>"
    by blast
  then have "handleWebsocket sample_env token_nano (start sample_world) =
     Some \<lparr>world = sample_world\<lparr>subscribers := [], reads_left := 0\<rparr>,
           trace = [FormValue ''token'',
                    CallParseToken ''t.nano_11'' (Inr \<lparr>claims_Account = ''nano_11''\<rparr>),
                    Subscribe ''nano_11'', ConnRead None, ConnRead (Some (Err ''EOF'')),
                    Cancel ''nano_11'']\<rparr>"
    by (simp add: sample_world_def token_nano_def request_def form_of_def)
  with token parsed first second closes show ?thesis
    by simp
qed


subsection \<open>The type assertion in the subscriber callback\<close>

text \<open>
  C8: the callback handed to \<^verbatim>\<open>Subscribe\<close> panics exactly on the events that are not
  a \<^verbatim>\<open>PaymentVerified\<close>: it is safe on every \<^verbatim>\<open>PaymentVerified\<close> and aborts on an
  event of any other type.
\<close>

theorem websocket_callback_panics:
  "list_ex is_Panic (trace (websocket_callback env token e (start w))) \<longleftrightarrow> \<not> is_PaymentVerified e"
  by (cases e) (auto simp: websocket_callback_def hdefs Let_def split: sum.splits prod.splits)


theorem websocket_callback_panics_witness:
  "list_ex is_Panic
     (trace (websocket_callback sample_env ''t.nano_11'' (OtherEvent ()) (start sample_world))) \<and>
   \<not> list_ex is_Panic
     (trace (websocket_callback sample_env ''t.nano_11'' (PaymentVerified payment_usd)
        (start sample_world)))"
  using websocket_callback_panics [of sample_env "''t.nano_11''" "OtherEvent ()" sample_world]
    websocket_callback_panics [of sample_env "''t.nano_11''" "PaymentVerified payment_usd" sample_world]
  by simp


subsection \<open>A websocket connection without a usable token\<close>

text \<open>
  C10: with an empty token \<^verbatim>\<open>handleWebsocket\<close> returns after reading the form value,
  and with a token that does not parse after the \<^verbatim>\<open>ParseToken\<close> call: it has not
  subscribed, has not read from the connection and has written nothing to it.
\<close>

theorem handleWebsocket_no_token:
  "(Form r ''token'' = [] \<longrightarrow>
      handleWebsocket env r (start w) = Some \<lparr>world = w, trace = [FormValue ''token'']\<rparr>) \<and>
   (Form r ''token'' \<noteq> [] \<and> ParseToken env (Form r ''token'') w = (Inl err, w1) \<longrightarrow>
      handleWebsocket env r (start w) =
        Some \<lparr>world = w1,
              trace = [FormValue ''token'', CallParseToken (Form r ''token'') (Inl err)]\<rparr>)"
  by (simp add: handleWebsocket_def hdefs)


theorem handleWebsocket_no_token_witness:
  "Form no_token ''token'' = [] \<and>
   handleWebsocket sample_env no_token (start sample_world) =
     Some \<lparr>world = sample_world, trace = [FormValue ''token'']\<rparr> \<and>
   Form forged_token ''token'' \<noteq> [] \<and>
   ParseToken sample_env (Form forged_token ''token'') sample_world =
     (Inl (Err ''bad token''), sample_world) \<and>
   handleWebsocket sample_env forged_token (start sample_world) =
     Some \<lparr>world = sample_world,
           trace = [FormValue ''token'', CallParseToken ''forged'' (Inl (Err ''bad token''))]\<rparr>"
proof -
  have none: "Form no_token ''token'' = []"
    by (simp add: sample_defs no_token_def)
  have forged: "Form forged_token ''token'' \<noteq> [] \<and>
      ParseToken sample_env (Form forged_token ''token'') sample_world =
        (Inl (Err ''bad token''), sample_world)"
    by (simp add: sample_defs forged_token_def)
  from handleWebsocket_no_token [of no_token sample_env sample_world] none
  have "handleWebsocket sample_env no_token (start sample_world) =
     Some \<lparr>world = sample_world, trace = [FormValue ''token'']\<rparr>"
    by simp
  moreover
  from handleWebsocket_no_token [where r = forged_token and env = sample_env
      and w = sample_world and err = "Err ''bad token''" and ?w1.0 = sample_world] forged
  have "handleWebsocket sample_env forged_token (start sample_world) =
     Some \<lparr>world = sample_world,
           trace = [FormValue ''token'', CallParseToken ''forged'' (Inl (Err ''bad token''))]\<rparr>"
    by (simp add: forged_token_def request_def form_of_def)
  ultimately show ?thesis
    using none forged by simp
qed


end
